theory Spec2Isabelle
  imports Complex_Main
begin

section \<open>Numbers\<close>

text \<open>
  Times, frame rates and intervals are Python floats in the source. They are modelled as
  exact rationals: the model computes \<open>start_time * fps\<close> without the rounding of a
  binary float. Every concrete input used below is a dyadic rational whose products are
  exactly representable, so that the float computation and the model agree there.
  Frame numbers and pixel sizes are Python integers, modelled as \<open>int\<close>.
\<close>

definition py_int :: "rat \<Rightarrow> int" where
  \<comment> \<open>Python's \<open>int(x)\<close> on a float: truncation towards zero.\<close>
  "py_int x = (if 0 \<le> x then \<lfloor>x\<rfloor> else \<lceil>x\<rceil>)"

section \<open>The extractor object\<close>

record extractor =
  interval :: rat
  quality :: int
  max_width :: "int option"
  start_time :: rat
  end_time :: "rat option"

definition init :: "rat \<Rightarrow> int \<Rightarrow> int option \<Rightarrow> rat \<Rightarrow> rat option \<Rightarrow> extractor" where
  \<comment> \<open>\<open>VideoFrameExtractor.__init__\<close>: the fields the extraction reads.\<close>
  "init interval0 quality0 max_width0 start_time0 end_time0 =
     \<lparr>interval = interval0,
      quality = max 1 (min 100 quality0),
      max_width = max_width0,
      start_time = max 0 start_time0,
      end_time = end_time0\<rparr>"

section \<open>The video source\<close>

record frame =
  height :: int   \<comment> \<open>\<open>frame.shape[0]\<close>\<close>
  width :: int    \<comment> \<open>\<open>frame.shape[1]\<close>\<close>

record video =
  opened :: bool           \<comment> \<open>\<open>cap.isOpened()\<close>\<close>
  fps :: rat               \<comment> \<open>\<open>CAP_PROP_FPS\<close>\<close>
  total_frames :: int      \<comment> \<open>\<open>int(CAP_PROP_FRAME_COUNT)\<close>, as the container reports it\<close>
  frames :: "frame list"   \<comment> \<open>the frames a sequential read delivers, by position\<close>

definition cap_read :: "video \<Rightarrow> int \<Rightarrow> frame option" where
  \<comment> \<open>\<open>cap.read()\<close> at a position: \<open>ret\<close> is false outside the decodable frames.\<close>
  "cap_read v pos =
     (if 0 \<le> pos \<and> pos < int (length (frames v)) then Some (frames v ! nat pos) else None)"

section \<open>The frame sampler\<close>

text \<open>
  \<open>VideoFrameExtractor.extract_frames\<close>. The loop is \<open>sample_loop\<close>, the repetition of
  \<open>sample_step\<close>; what precedes it is \<open>open_sampler\<close>, what follows it and the
  \<open>except Exception\<close> handler are \<open>finish\<close>. An exception ends the loop with the status
  \<open>Stopped (Some e)\<close>; the files written before it stay. What \<open>cv2.imwrite\<close> does with
  the k-th frame handed to it is a parameter of the extraction. Creating the output
  folder is taken to succeed.
\<close>

datatype exn = ZeroDivisionError | Cv2Error

definition start_frame :: "extractor \<Rightarrow> video \<Rightarrow> int" where
  "start_frame x v = (if start_time x > 0 then py_int (start_time x * fps v) else 0)"

definition end_frame :: "extractor \<Rightarrow> video \<Rightarrow> int" where
  "end_frame x v =
     min (case end_time x of
            None \<Rightarrow> total_frames v
          | Some e \<Rightarrow> if e \<noteq> 0 then py_int (e * fps v) else total_frames v)
         (total_frames v)"

definition interval_frames :: "extractor \<Rightarrow> video \<Rightarrow> int" where
  "interval_frames x v = py_int (fps v * interval x)"

definition cv2_resize :: "frame \<Rightarrow> int \<Rightarrow> int \<Rightarrow> exn + frame" where
  \<comment> \<open>\<open>cv2.resize(frame, (new_width, new_height))\<close>; OpenCV rejects an empty target size.\<close>
  "cv2_resize fr new_width new_height =
     (if new_width \<le> 0 \<or> new_height \<le> 0 then Inl Cv2Error
      else Inr \<lparr>height = new_height, width = new_width\<rparr>)"

definition scale_frame :: "int option \<Rightarrow> frame \<Rightarrow> exn + frame" where
  "scale_frame mw fr =
     (case mw of
        None \<Rightarrow> Inr fr
      | Some m \<Rightarrow>
          if m \<noteq> 0 \<and> width fr > m then
            (if width fr = 0 then Inl ZeroDivisionError
             else cv2_resize fr m (py_int (of_int (height fr) * (of_int m / of_int (width fr)))))
          else Inr fr)"

record extracted_frame =
  sequence_index :: nat   \<comment> \<open>\<open>saved_count\<close> in the file name\<close>
  frame_index :: int      \<comment> \<open>\<open>frame_count\<close> when the frame was selected\<close>
  timestamp :: rat        \<comment> \<open>\<open>current_time = frame_count / fps\<close> in the file name\<close>
  shape :: frame          \<comment> \<open>the size of the image handed to \<open>cv2.imwrite\<close>\<close>
  jpeg_quality :: int

datatype write_outcome =
    Written       \<comment> \<open>\<open>cv2.imwrite\<close> returned True\<close>
  | NotWritten    \<comment> \<open>\<open>cv2.imwrite\<close> returned False: no file\<close>
  | WriteRaised   \<comment> \<open>\<open>cv2.imwrite\<close> raised\<close>

datatype log_msg =
    ErrCouldNotOpen
  | ErrExtracting exn
  | DebugSaved nat
  | InfoCompleted nat
  | ErrDownload
  | ErrWindow
  | InfoInterrupted
  | InfoReport
  | InfoSuccess
  | InfoCleanedUp
  | WarnCouldNotRemove

datatype status = Running | Stopped "exn option" | NotOpened

record sampler =
  frame_count :: int
  saved_count :: nat
  saved :: "extracted_frame list"   \<comment> \<open>the frames counted as saved, in order\<close>
  files :: "extracted_frame list"   \<comment> \<open>the frame files that exist on disk\<close>
  slog :: "log_msg list"
  status :: status

definition open_sampler :: "extractor \<Rightarrow> video \<Rightarrow> sampler" where
  \<comment> \<open>\<open>extract_frames\<close> up to the loop.\<close>
  "open_sampler x v =
     (if \<not> opened v then
        \<lparr>frame_count = 0, saved_count = 0, saved = [], files = [],
         slog = [ErrCouldNotOpen], status = NotOpened\<rparr>
      else if fps v = 0 then
        \<lparr>frame_count = 0, saved_count = 0, saved = [], files = [],
         slog = [], status = Stopped (Some ZeroDivisionError)\<rparr>
      else
        \<lparr>frame_count = start_frame x v, saved_count = 0, saved = [], files = [],
         slog = [], status = Running\<rparr>)"

definition sample_step :: "extractor \<Rightarrow> video \<Rightarrow> (nat \<Rightarrow> write_outcome) \<Rightarrow> sampler \<Rightarrow> sampler" where
  \<comment> \<open>One test of the loop condition and one pass through the loop body.\<close>
  "sample_step x v imwrite s =
     (if status s \<noteq> Running then s
      else if \<not> frame_count s < end_frame x v then s\<lparr>status := Stopped None\<rparr>
      else
        (case cap_read v (frame_count s) of
           None \<Rightarrow> s\<lparr>status := Stopped None\<rparr>
         | Some fr \<Rightarrow>
             if interval_frames x v = 0 then s\<lparr>status := Stopped (Some ZeroDivisionError)\<rparr>
             else if (frame_count s - start_frame x v) mod interval_frames x v = 0 then
               (case scale_frame (max_width x) fr of
                  Inl e \<Rightarrow> s\<lparr>status := Stopped (Some e)\<rparr>
                | Inr fr' \<Rightarrow>
                    let ef = \<lparr>sequence_index = saved_count s,
                              frame_index = frame_count s,
                              timestamp = of_int (frame_count s) / fps v,
                              shape = fr',
                              jpeg_quality = quality x\<rparr>
                    in (case imwrite (saved_count s) of
                          WriteRaised \<Rightarrow> s\<lparr>status := Stopped (Some Cv2Error)\<rparr>
                        | Written \<Rightarrow>
                            s\<lparr>frame_count := frame_count s + 1,
                              saved_count := Suc (saved_count s),
                              saved := saved s @ [ef],
                              files := files s @ [ef],
                              slog := slog s @ [DebugSaved (saved_count s)]\<rparr>
                        | NotWritten \<Rightarrow>
                            s\<lparr>frame_count := frame_count s + 1,
                              saved_count := Suc (saved_count s),
                              saved := saved s @ [ef],
                              slog := slog s @ [DebugSaved (saved_count s)]\<rparr>))
             else s\<lparr>frame_count := frame_count s + 1\<rparr>))"

definition sampler_measure :: "extractor \<Rightarrow> video \<Rightarrow> sampler \<Rightarrow> nat" where
  "sampler_measure x v s =
     (if status s = Running then Suc (nat (end_frame x v - frame_count s)) else 0)"

function sample_loop :: "extractor \<Rightarrow> video \<Rightarrow> (nat \<Rightarrow> write_outcome) \<Rightarrow> sampler \<Rightarrow> sampler" where
  "sample_loop x v imwrite s =
     (if status s = Running then sample_loop x v imwrite (sample_step x v imwrite s) else s)"
  by pat_completeness auto
termination
  by (relation "measure (\<lambda>(x, v, imwrite, s). sampler_measure x v s)")
     (auto simp: sample_step_def sampler_measure_def Let_def
           split: option.splits sum.splits write_outcome.splits)

declare sample_loop.simps [simp del]

record extraction =
  returned :: nat                      \<comment> \<open>the value \<open>extract_frames\<close> returns\<close>
  raised :: "exn option"               \<comment> \<open>the exception its handler caught, if any\<close>
  frames_extracted :: "nat option"     \<comment> \<open>\<open>metadata['frames_extracted']\<close>, when set\<close>
  saved_frames :: "extracted_frame list"
  frame_files :: "extracted_frame list"
  elog :: "log_msg list"

definition finish :: "sampler \<Rightarrow> extraction" where
  \<comment> \<open>\<open>extract_frames\<close> after the loop, and its exception handler.\<close>
  "finish s =
     (case status s of
        NotOpened \<Rightarrow>
          \<lparr>returned = 0, raised = None, frames_extracted = None,
           saved_frames = saved s, frame_files = files s, elog = slog s\<rparr>
      | Stopped (Some e) \<Rightarrow>
          \<lparr>returned = 0, raised = Some e, frames_extracted = None,
           saved_frames = saved s, frame_files = files s, elog = slog s @ [ErrExtracting e]\<rparr>
      | _ \<Rightarrow>
          \<lparr>returned = saved_count s, raised = None, frames_extracted = Some (saved_count s),
           saved_frames = saved s, frame_files = files s,
           elog = slog s @ [InfoCompleted (saved_count s)]\<rparr>)"

definition extract_frames :: "extractor \<Rightarrow> video \<Rightarrow> (nat \<Rightarrow> write_outcome) \<Rightarrow> extraction" where
  "extract_frames x v imwrite = finish (sample_loop x v imwrite (open_sampler x v))"

section \<open>The player\<close>

text \<open>
  \<open>VideoPlayer.play\<close> opens a capture of its own on the same file. One step is one pass
  through its loop; the key is what \<open>cv2.waitKey\<close> returns in that pass.
\<close>

datatype key = KeyQuit | KeyPause | KeyRestart | KeyForward | KeyBackward | KeyNone

record player =
  pos :: int             \<comment> \<open>\<open>CAP_PROP_POS_FRAMES\<close> of the player's capture\<close>
  current_frame :: int
  paused :: bool
  playing :: bool        \<comment> \<open>the loop has not been left\<close>

definition open_player :: "extractor \<Rightarrow> video \<Rightarrow> player" where
  "open_player x v =
     (if \<not> opened v then \<lparr>pos = 0, current_frame = 0, paused = False, playing = False\<rparr>
      else
        let p0 = (if start_time x > 0 then py_int (start_time x * fps v) else 0)
        in \<lparr>pos = p0, current_frame = p0, paused = False, playing = True\<rparr>)"

definition handle_key :: "extractor \<Rightarrow> video \<Rightarrow> key \<Rightarrow> player \<Rightarrow> player" where
  "handle_key x v k p =
     (case k of
        KeyQuit \<Rightarrow> p\<lparr>playing := False\<rparr>
      | KeyPause \<Rightarrow> p\<lparr>paused := \<not> paused p\<rparr>
      | KeyRestart \<Rightarrow>
          p\<lparr>pos := (if start_time x > 0 then py_int (start_time x * fps v) else 0),
            paused := False\<rparr>
      | KeyForward \<Rightarrow>
          p\<lparr>pos := min (current_frame p + py_int (10 * fps v)) (total_frames v - 1)\<rparr>
      | KeyBackward \<Rightarrow>
          p\<lparr>pos := max (current_frame p - py_int (10 * fps v)) 0\<rparr>
      | KeyNone \<Rightarrow> p)"

definition past_end :: "extractor \<Rightarrow> video \<Rightarrow> int \<Rightarrow> bool" where
  \<comment> \<open>\<open>end_time and current_frame >= end_time * fps\<close>\<close>
  "past_end x v cur =
     (case end_time x of None \<Rightarrow> False | Some e \<Rightarrow> e \<noteq> 0 \<and> e * fps v \<le> of_int cur)"

definition player_step :: "extractor \<Rightarrow> video \<Rightarrow> bool \<Rightarrow> key \<Rightarrow> player \<Rightarrow> player" where
  \<comment> \<open>\<open>headless\<close>: \<open>cv2.imshow\<close> raises, and the handler of \<open>play\<close> ends the playback.\<close>
  "player_step x v headless k p =
     (if \<not> playing p then p
      else if paused p then handle_key x v k p
      else
        (case cap_read v (pos p) of
           None \<Rightarrow> p\<lparr>current_frame := pos p, playing := False\<rparr>
         | Some fr \<Rightarrow>
             let p1 = p\<lparr>pos := pos p + 1, current_frame := pos p + 1\<rparr>
             in if past_end x v (current_frame p1) then p1\<lparr>playing := False\<rparr>
                else if fps v = 0 \<or> headless then p1\<lparr>playing := False\<rparr>
                else handle_key x v k p1))"

section \<open>The run\<close>

text \<open>
  With \<open>play_video\<close> the extraction runs in a thread beside the player. The schedule
  lists, in the order they happen, the passes through the sampler's loop and the passes
  through the player's loop until the player returns; \<open>extraction_thread.join()\<close> then
  lets the sampler finish. The two tasks have a state of their own each: the sampler
  reads its capture, the player reads its own.
\<close>

datatype event = SamplerStep | PlayerStep key

fun interleave ::
  "extractor \<Rightarrow> video \<Rightarrow> (nat \<Rightarrow> write_outcome) \<Rightarrow> bool \<Rightarrow> event list
     \<Rightarrow> sampler \<times> player \<Rightarrow> sampler \<times> player" where
  "interleave x v imw hl [] sp = sp"
| "interleave x v imw hl (SamplerStep # es) (s, p) =
     interleave x v imw hl es (sample_step x v imw s, p)"
| "interleave x v imw hl (PlayerStep k # es) (s, p) =
     interleave x v imw hl es (s, player_step x v hl k p)"

definition extract_frames_threaded ::
  "extractor \<Rightarrow> video \<Rightarrow> (nat \<Rightarrow> write_outcome) \<Rightarrow> bool \<Rightarrow> event list \<Rightarrow> extraction" where
  \<comment> \<open>What the extraction thread has produced once it is joined.\<close>
  "extract_frames_threaded x v imw hl es =
     finish (sample_loop x v imw
       (fst (interleave x v imw hl es (open_sampler x v, open_player x v))))"

record world =
  temp_video :: bool        \<comment> \<open>the downloaded file \<open>self.video_path\<close> exists\<close>
  metadata_file :: bool     \<comment> \<open>\<open>video_metadata.json\<close> was written\<close>
  report_file :: bool       \<comment> \<open>\<open>extraction_report.txt\<close> was written\<close>
  disk_frames :: "extracted_frame list"
  wlog :: "log_msg list"

datatype download_outcome =
    Downloaded
  | DownloadFailed bool     \<comment> \<open>\<open>download_video\<close> returned False; a partial file was left or not\<close>

datatype interrupt =
    NoInterrupt
  | InterruptDownload bool  \<comment> \<open>KeyboardInterrupt while downloading; a partial file exists or not\<close>
  | InterruptWork nat       \<comment> \<open>KeyboardInterrupt after that many steps of extraction or playback\<close>

record env =
  download :: download_outcome
  source :: video
  write_result :: "nat \<Rightarrow> write_outcome"
  metadata_write_ok :: bool
  report_write_ok :: bool
  remove_ok :: bool         \<comment> \<open>\<open>os.remove\<close> succeeds\<close>
  headless :: bool
  schedule :: "event list"
  interrupt :: interrupt

definition fresh :: world where
  "fresh = \<lparr>temp_video = False, metadata_file = False, report_file = False,
            disk_frames = [], wlog = []\<rparr>"

definition say :: "log_msg \<Rightarrow> world \<Rightarrow> world" where
  "say m w = w\<lparr>wlog := wlog w @ [m]\<rparr>"

definition cleanup :: "env \<Rightarrow> world \<Rightarrow> world" where
  \<comment> \<open>The \<open>finally\<close> block of \<open>run\<close>.\<close>
  "cleanup e w =
     (if temp_video w then
        (if remove_ok e then say InfoCleanedUp (w\<lparr>temp_video := False\<rparr>)
         else say WarnCouldNotRemove w)
      else w)"

definition get_video_metadata :: "env \<Rightarrow> world \<Rightarrow> world" where
  "get_video_metadata e w =
     (if opened (source e) \<and> metadata_write_ok e then w\<lparr>metadata_file := True\<rparr> else w)"

definition create_summary_report :: "env \<Rightarrow> world \<Rightarrow> world" where
  "create_summary_report e w =
     (if report_write_ok e then say InfoReport (w\<lparr>report_file := True\<rparr>) else w)"

definition store :: "extraction \<Rightarrow> world \<Rightarrow> world" where
  "store r w = w\<lparr>disk_frames := frame_files r, wlog := wlog w @ elog r\<rparr>"

definition invalid_window :: "extractor \<Rightarrow> bool" where
  \<comment> \<open>\<open>self.end_time and self.end_time <= self.start_time\<close>\<close>
  "invalid_window x =
     (case end_time x of None \<Rightarrow> False | Some e \<Rightarrow> e \<noteq> 0 \<and> e \<le> start_time x)"

definition complete :: "env \<Rightarrow> bool \<Rightarrow> extraction \<Rightarrow> world \<Rightarrow> bool \<times> world" where
  \<comment> \<open>After the extraction: the report, the success message, the cleanup.\<close>
  "complete e create_report r w =
     (let w1 = store r w;
          w2 = (if create_report then create_summary_report e w1 else w1)
      in (True, cleanup e (say InfoSuccess w2)))"

definition interrupted :: "env \<Rightarrow> sampler \<Rightarrow> world \<Rightarrow> bool \<times> world" where
  \<comment> \<open>KeyboardInterrupt in the main thread: its handler, then the cleanup.\<close>
  "interrupted e s w =
     (False, cleanup e (say InfoInterrupted (w\<lparr>disk_frames := files s, wlog := wlog w @ slog s\<rparr>)))"

definition run :: "extractor \<Rightarrow> env \<Rightarrow> bool \<Rightarrow> bool \<Rightarrow> (bool \<times> world) option" where
  \<comment> \<open>\<open>VideoFrameExtractor.run\<close>; None when the player has not returned by the end of the
      schedule.\<close>
  "run x e play_video create_report =
     (case interrupt e of
        InterruptDownload partial \<Rightarrow>
          Some (False, cleanup e (say InfoInterrupted (fresh\<lparr>temp_video := partial\<rparr>)))
      | _ \<Rightarrow>
        (case download e of
           DownloadFailed partial \<Rightarrow>
             Some (False, cleanup e (say ErrDownload (fresh\<lparr>temp_video := partial\<rparr>)))
         | Downloaded \<Rightarrow>
             let w1 = get_video_metadata e (fresh\<lparr>temp_video := True\<rparr>);
                 s0 = open_sampler x (source e);
                 p0 = open_player x (source e)
             in if invalid_window x then Some (False, cleanup e (say ErrWindow w1))
                else if play_video then
                  (case interrupt e of
                     InterruptWork n \<Rightarrow>
                       Some (interrupted e
                         (fst (interleave x (source e) (write_result e) (headless e)
                                 (take n (schedule e)) (s0, p0))) w1)
                   | _ \<Rightarrow>
                       if playing (snd (interleave x (source e) (write_result e) (headless e)
                                          (schedule e) (s0, p0)))
                       then None
                       else Some (complete e create_report
                              (extract_frames_threaded x (source e) (write_result e) (headless e)
                                 (schedule e)) w1))
                else
                  (case interrupt e of
                     InterruptWork n \<Rightarrow>
                       Some (interrupted e
                         (((sample_step x (source e) (write_result e)) ^^ n) s0) w1)
                   | _ \<Rightarrow>
                       Some (complete e create_report
                              (extract_frames x (source e) (write_result e)) w1))))"

section \<open>The command line\<close>

record args =
  arg_interval :: rat
  arg_quality :: int
  arg_width :: "int option"
  arg_start :: rat
  arg_end :: "rat option"
  no_play :: bool
  no_report :: bool

definition main :: "args \<Rightarrow> env \<Rightarrow> (int \<times> world) option" where
  \<comment> \<open>\<open>cli.main\<close> after \<open>parse_args\<close>: the exit code and the files. The quality is among
      \<open>choices=range(1, 101)\<close> or the parser exits with 2.\<close>
  "main a e =
     (if arg_quality a < 1 \<or> 100 < arg_quality a then Some (2, fresh)
      else if arg_interval a \<le> 0 then Some (1, fresh)
      else if arg_start a < 0 then Some (1, fresh)
      else if (case arg_end a of None \<Rightarrow> False | Some t \<Rightarrow> t \<noteq> 0 \<and> t \<le> arg_start a)
        then Some (1, fresh)
      else
        (case run (init (arg_interval a) (arg_quality a) (arg_width a) (arg_start a) (arg_end a))
                e (\<not> no_play a) (\<not> no_report a) of
           None \<Rightarrow> None
         | Some (ok, w) \<Rightarrow> Some (if ok then 0 else 1, w)))"

section \<open>Concrete inputs\<close>

definition small_frame :: frame where
  "small_frame = \<lparr>height = 2, width = 2\<rparr>"

definition clip :: "rat \<Rightarrow> nat \<Rightarrow> frame \<Rightarrow> video" where
  \<comment> \<open>A video that opens, with \<open>n\<close> equal frames and a frame count that says so.\<close>
  "clip rate n fr = \<lparr>opened = True, fps = rate, total_frames = int n, frames = replicate n fr\<rparr>"

definition all_written :: "nat \<Rightarrow> write_outcome" where
  "all_written k = Written"

definition quiet_env :: "video \<Rightarrow> env" where
  \<comment> \<open>Everything succeeds, nobody interrupts, no playback events.\<close>
  "quiet_env v =
     \<lparr>download = Downloaded, source = v, write_result = all_written,
      metadata_write_ok = True, report_write_ok = True, remove_ok = True,
      headless = True, schedule = [], interrupt = NoInterrupt\<rparr>"




definition busy_env :: "video \<Rightarrow> env" where
  \<comment> \<open>A display, and a viewer who pauses, resumes, skips forward and quits.\<close>
  "busy_env v = (quiet_env v)\<lparr>headless := False,
     schedule := [PlayerStep KeyNone, SamplerStep, PlayerStep KeyPause, SamplerStep,
                  PlayerStep KeyPause, PlayerStep KeyForward, PlayerStep KeyQuit]\<rparr>"

definition stuck_env :: "video \<Rightarrow> env" where
  \<comment> \<open>The downloaded file cannot be removed.\<close>
  "stuck_env v = (quiet_env v)\<lparr>remove_ok := False\<rparr>"

definition interrupted_env :: "video \<Rightarrow> env" where
  "interrupted_env v = (quiet_env v)\<lparr>interrupt := InterruptWork 2\<rparr>"

section \<open>Notions used in the statements and proofs\<close>

definition reaches_check :: "env \<Rightarrow> bool" where
  \<comment> \<open>The download returned True, so \<open>run\<close> gets as far as the test of the window.\<close>
  "reaches_check e =
     (case interrupt e of InterruptDownload partial \<Rightarrow> False | _ \<Rightarrow> download e = Downloaded)"







section \<open>The loop\<close>



lemma sample_loop_step: "sample_loop x v imw (sample_step x v imw s) = sample_loop x v imw s"
proof (cases "status s = Running")
  case True
  then show ?thesis by (subst (2) sample_loop.simps) simp
next
  case False
  then show ?thesis by (simp add: sample_step_def)
qed

lemma finish_saved [simp]: "saved_frames (finish s) = saved s"
  by (simp add: finish_def split: status.splits option.splits)

lemma finish_files [simp]: "frame_files (finish s) = files s"
  by (simp add: finish_def split: status.splits option.splits)







section \<open>Playback beside the extraction\<close>

lemma sample_loop_interleave:
  "sample_loop x v imw (fst (interleave x v imw hl es (s, p))) = sample_loop x v imw s"
proof (induction es arbitrary: s p)
  case Nil
  show ?case by simp
next
  case (Cons e es)
  show ?case by (cases e) (simp_all add: Cons.IH sample_loop_step)
qed

lemma threaded_same: "extract_frames_threaded x v imw hl es = extract_frames x v imw"
  by (simp add: extract_frames_threaded_def extract_frames_def sample_loop_interleave)

text \<open>
  C4. When nobody interrupts and the player returns, the run with playback gives the very
  result of the run without it: the same outcome, the same frame files with the same
  sequence numbers and timestamps. Whatever the schedule of the two tasks and whatever
  the keys, the joined extraction thread has produced what the synchronous call produces.
\<close>

theorem playback_does_not_change_extraction:
  assumes "interrupt e = NoInterrupt"
    and "\<not> playing (snd (interleave x (source e) (write_result e) (headless e) (schedule e)
                           (open_sampler x (source e), open_player x (source e))))"
  shows "run x e True create_report = run x e False create_report
       \<and> run x e False create_report \<noteq> None
       \<and> extract_frames_threaded x (source e) (write_result e) (headless e) (schedule e) =
           extract_frames x (source e) (write_result e)"
proof -
  have "run x e True create_report = run x e False create_report"
    using assms by (simp add: run_def threaded_same Let_def split: download_outcome.splits)
  moreover have "run x e False create_report \<noteq> None"
    using assms(1) by (auto simp: run_def Let_def split: download_outcome.splits)
  ultimately show ?thesis by (simp add: threaded_same)
qed

text \<open>
  A six-frame clip at 2 frames per second, sampled every second, with a viewer at the
  keys: both runs save the frames 0, 2 and 4.
\<close>

theorem playback_does_not_change_extraction_witness:
  "interrupt (busy_env (clip 2 6 small_frame)) = NoInterrupt
   \<and> \<not> playing (snd (interleave (init 1 95 None 0 None) (source (busy_env (clip 2 6 small_frame)))
         (write_result (busy_env (clip 2 6 small_frame))) (headless (busy_env (clip 2 6 small_frame)))
         (schedule (busy_env (clip 2 6 small_frame)))
         (open_sampler (init 1 95 None 0 None) (source (busy_env (clip 2 6 small_frame))),
          open_player (init 1 95 None 0 None) (source (busy_env (clip 2 6 small_frame))))))
   \<and> run (init 1 95 None 0 None) (busy_env (clip 2 6 small_frame)) True True =
       run (init 1 95 None 0 None) (busy_env (clip 2 6 small_frame)) False True
   \<and> map_option (\<lambda>r. map frame_index (disk_frames (snd r)))
        (run (init 1 95 None 0 None) (busy_env (clip 2 6 small_frame)) True True) = Some [0, 2, 4]"
  using playback_does_not_change_extraction
    [of "busy_env (clip 2 6 small_frame)" "init 1 95 None 0 None" True]
  by code_simp

section \<open>Sequence numbers\<close>






section \<open>Which frames are sampled\<close>









text \<open>
  C6. Nothing guards an interval shorter than one frame period. At 1 frame per second and
  an interval of half a second \<open>interval_frames\<close> is 0; the first frame read is tested
  with a modulo by zero, the handler of \<open>extract_frames\<close> catches the ZeroDivisionError,
  no frame is saved, 0 is returned, and the run still reports success.
\<close>

theorem zero_interval_frames:
  "interval_frames (init (1/2) 95 None 0 None) (clip 1 3 small_frame) = 0
   \<and> raised (extract_frames (init (1/2) 95 None 0 None) (clip 1 3 small_frame) all_written)
       = Some ZeroDivisionError
   \<and> returned (extract_frames (init (1/2) 95 None 0 None) (clip 1 3 small_frame) all_written) = 0
   \<and> saved_frames (extract_frames (init (1/2) 95 None 0 None) (clip 1 3 small_frame) all_written) = []
   \<and> map_option fst (run (init (1/2) 95 None 0 None) (quiet_env (clip 1 3 small_frame)) False True)
       = Some True"
  by code_simp

section \<open>The window\<close>




section \<open>Downscaling\<close>







section \<open>Writes that fail\<close>










section \<open>The invalid window\<close>

lemma cleanup_keeps [simp]:
  "disk_frames (cleanup e w) = disk_frames w" "report_file (cleanup e w) = report_file w"
  "metadata_file (cleanup e w) = metadata_file w"
  by (simp_all add: cleanup_def say_def)

lemma cleanup_log: "set (wlog w) \<subseteq> set (wlog (cleanup e w))"
  by (auto simp: cleanup_def say_def)

text \<open>
  C3, as the code has it. With an end time that is set, not 0, and not after the start
  time, \<open>run\<close> returns False, no frame is extracted and no report is written. The window is
  tested after the download and after the metadata are read: when the download succeeded
  the error is logged and \<open>video_metadata.json\<close> exists if the video opened and the file
  could be written.
\<close>

theorem invalid_window_fails:
  assumes "end_time x = Some t" and "t \<noteq> 0" and "t \<le> start_time x"
  shows "\<exists>w. run x e play_video create_report = Some (False, w)
           \<and> disk_frames w = [] \<and> \<not> report_file w
           \<and> (reaches_check e \<longrightarrow>
                ErrWindow \<in> set (wlog w)
                \<and> metadata_file w = (opened (source e) \<and> metadata_write_ok e))"
proof -
  have iw: "invalid_window x" using assms by (simp add: invalid_window_def)
  show ?thesis
  proof (cases "reaches_check e")
    case True
    let ?w = "say ErrWindow (get_video_metadata e (fresh\<lparr>temp_video := True\<rparr>))"
    from True have "run x e play_video create_report = Some (False, cleanup e ?w)"
      using iw by (auto simp: run_def reaches_check_def Let_def split: interrupt.splits)
    moreover have "ErrWindow \<in> set (wlog (cleanup e ?w))"
      using cleanup_log [of ?w e] by (auto simp: say_def)
    ultimately show ?thesis
      using True by (auto simp: say_def get_video_metadata_def fresh_def)
  next
    case False
    then show ?thesis
      by (auto simp: run_def reaches_check_def say_def fresh_def
               split: interrupt.splits download_outcome.splits)
  qed
qed

text \<open>From second 10 to second 5, with playback asked for.\<close>

theorem invalid_window_fails_witness:
  "end_time (init 1 95 None 10 (Some 5)) = Some 5 \<and> (5::rat) \<noteq> 0
   \<and> 5 \<le> start_time (init 1 95 None 10 (Some 5))
   \<and> run (init 1 95 None 10 (Some 5)) (quiet_env (clip 1 3 small_frame)) True True =
       Some (False, \<lparr>temp_video = False, metadata_file = True, report_file = False,
                     disk_frames = [], wlog = [ErrWindow, InfoCleanedUp]\<rparr>)"
proof -
  let ?x = "init 1 95 None 10 (Some 5)" and ?e = "quiet_env (clip 1 3 small_frame)"
  have h1: "end_time ?x = Some 5" and h2: "(5::rat) \<noteq> 0" and h3: "5 \<le> start_time ?x"
    by code_simp+
  from invalid_window_fails [OF h1 h2 h3, of ?e True True]
  obtain w where w: "run ?x ?e True True = Some (False, w)" by blast
  have "run ?x ?e True True =
       Some (False, \<lparr>temp_video = False, metadata_file = True, report_file = False,
                     disk_frames = [], wlog = [ErrWindow, InfoCleanedUp]\<rparr>)"
    by code_simp
  with h1 h2 h3 w show ?thesis by simp
qed

text \<open>
  The same window without playback: the run fails, and the metadata file has been
  written. With start and end both 0 the run does not fail at all.
\<close>

theorem invalid_window_counterexample:
  "map_option (\<lambda>r. (fst r, metadata_file (snd r)))
     (run (init 1 95 None 10 (Some 5)) (quiet_env (clip 1 3 small_frame)) False True)
     = Some (False, True)
   \<and> map_option fst (run (init 1 95 None 0 (Some 0)) (quiet_env (clip 1 3 small_frame)) False True)
     = Some True"
  by code_simp

text \<open>
  From the command line the same window is refused before the extractor is built:
  nothing is downloaded and no file is written.
\<close>

lemma main_rejects_window:
  assumes "arg_end a = Some t" and "t \<noteq> 0" and "t \<le> arg_start a"
    and "1 \<le> arg_quality a" and "arg_quality a \<le> 100"
  shows "\<exists>code. main a e = Some (code, fresh) \<and> code \<noteq> 0"
  using assms by (auto simp: main_def)

section \<open>The downloaded file\<close>

lemma cleanup_spec:
  "(remove_ok e \<longrightarrow> \<not> temp_video (cleanup e w))
   \<and> (temp_video (cleanup e w) \<longrightarrow> last (wlog (cleanup e w)) = WarnCouldNotRemove)"
  by (simp add: cleanup_def say_def)

lemma run_ends_in_cleanup:
  assumes "run x e pv cr = Some (ok, w)"
  shows "\<exists>w'. w = cleanup e w'"
  using assms
  by (auto simp: run_def complete_def interrupted_def Let_def
           split: interrupt.splits download_outcome.splits if_splits)

text \<open>
  C8, as the code has it. However a run ends (success, failed download, invalid window,
  interruption), its last act is the attempt to remove the downloaded file. If
  \<open>os.remove\<close> succeeds the file is gone; if the file is still there, the removal failed
  and the last log line is the warning about it.
\<close>

theorem temp_file_cleanup:
  assumes "run x e play_video create_report = Some (ok, w)"
  shows "(remove_ok e \<longrightarrow> \<not> temp_video w)
       \<and> (temp_video w \<longrightarrow> last (wlog w) = WarnCouldNotRemove)"
proof -
  from run_ends_in_cleanup [OF assms] obtain w' where "w = cleanup e w'" ..
  then show ?thesis using cleanup_spec [of e w'] by simp
qed

text \<open>A run interrupted after two frames: the file is removed.\<close>

theorem temp_file_cleanup_witness:
  "run (init 1 95 None 0 None) (interrupted_env (clip 1 3 small_frame)) False True =
     Some (False, \<lparr>temp_video = False, metadata_file = True, report_file = False,
        disk_frames = take 2 (saved_frames
          (extract_frames (init 1 95 None 0 None) (clip 1 3 small_frame) all_written)),
        wlog = [DebugSaved 0, DebugSaved 1, InfoInterrupted, InfoCleanedUp]\<rparr>)
   \<and> remove_ok (interrupted_env (clip 1 3 small_frame))"
proof -
  let ?w = "\<lparr>temp_video = False, metadata_file = True, report_file = False,
        disk_frames = take 2 (saved_frames
          (extract_frames (init 1 95 None 0 None) (clip 1 3 small_frame) all_written)),
        wlog = [DebugSaved 0, DebugSaved 1, InfoInterrupted, InfoCleanedUp]\<rparr>"
  have r: "run (init 1 95 None 0 None) (interrupted_env (clip 1 3 small_frame)) False True =
             Some (False, ?w)"
    by code_simp
  have "remove_ok (interrupted_env (clip 1 3 small_frame))" by code_simp
  with r temp_file_cleanup [OF r] show ?thesis by simp
qed

text \<open>
  A run in which \<open>os.remove\<close> fails: it succeeds, and the downloaded file is still there.
\<close>

theorem temp_file_cleanup_counterexample:
  "map_option (\<lambda>r. (fst r, temp_video (snd r), last (wlog (snd r))))
     (run (init 1 95 None 0 None) (stuck_env (clip 1 3 small_frame)) False True)
   = Some (True, True, WarnCouldNotRemove)"
  by code_simp

section \<open>Constructor clamping\<close>

text \<open>
  C10. The constructor stores \<open>max(1, min(100, quality))\<close>, which lies between 1 and 100
  for every integer, and stores \<open>max(0, start_time)\<close>, which is never negative.
\<close>

theorem init_clamps:
  "quality (init i q mw st et) = max 1 (min 100 q)
   \<and> 1 \<le> quality (init i q mw st et) \<and> quality (init i q mw st et) \<le> 100
   \<and> start_time (init i q mw st et) = max 0 st
   \<and> 0 \<le> start_time (init i q mw st et)"
  by (simp add: init_def)

end
